theory Spec2Isabelle
  imports Main "HOL-Library.Word"
begin

section \<open>The reflecting name server of \<open>reflect.go\<close>\<close>

text \<open>
  \<open>reflect.go\<close> registers two handlers with the \<open>miekg/dns\<close> server: \<open>handleReflect\<close>
  for the zone \<open>miek.nl.\<close> and \<open>handleSqlite\<close> for \<open>baz.miek.nl.\<close>. Each handler gets a
  \<open>dns.ResponseWriter\<close> (the session) and the decoded request, and answers by calling
  methods of the writer. The handlers are embedded as functions from the request, the
  writer and the surroundings they read (flags, clock, record store) to what they hand
  to the writer, what they print and how they leave.

  The packages \<open>dns\<close>, \<open>net\<close>, \<open>strconv\<close>, \<open>strings\<close> and \<open>database/sql\<close> are
  libraries, not sources of the repository. Of them the model fixes what their
  documentation fixes and the handlers rely on (\<open>SetReply\<close>, \<open>IsTsig\<close>, \<open>SetTsig\<close>,
  \<open>To4\<close>, \<open>Itoa\<close>, \<open>Atoi\<close>, \<open>Split\<close>, the rows a query returns); the serialiser, the
  printer, the clock and the start of a transfer are parameters.
\<close>

subsection \<open>Wire types of the \<open>dns\<close> package\<close>

type_synonym byte = "8 word"
type_synonym uint16 = "16 word"
type_synonym uint32 = "32 word"
type_synonym uint64 = "64 word"

text \<open>\<open>net.IP\<close> is a byte slice; the nil slice is the empty list.\<close>

type_synonym IP = "byte list"

definition TypeA :: uint16 where "TypeA = 1"
definition TypeSOA :: uint16 where "TypeSOA = 6"
definition TypeTXT :: uint16 where "TypeTXT = 16"
definition TypeAAAA :: uint16 where "TypeAAAA = 28"
definition TypeTSIG :: uint16 where "TypeTSIG = 250"
definition TypeIXFR :: uint16 where "TypeIXFR = 251"
definition TypeAXFR :: uint16 where "TypeAXFR = 252"
definition TypeANY :: uint16 where "TypeANY = 255"

definition ClassINET :: uint16 where "ClassINET = 1"
definition ClassANY :: uint16 where "ClassANY = 255"

definition HmacMD5 :: string where "HmacMD5 = ''hmac-md5.sig-alg.reg.int.''"

record RR_Header =
  Name :: string
  Rrtype :: uint16
  Class :: uint16
  Ttl :: uint32
  Rdlength :: uint16

text \<open>
  \<open>dns.RR\<close> is an interface; the handlers build \<open>*dns.A\<close>, \<open>*dns.AAAA\<close>, \<open>*dns.TXT\<close>,
  \<open>*dns.ANY\<close>, parse one \<open>*dns.SOA\<close> and meet \<open>*dns.TSIG\<close> in the extra section. Of a TSIG
  record the model keeps the fields that \<open>SetTsig\<close> fills in: header, algorithm, time
  signed, fudge and original id.
\<close>

datatype RR =
    A RR_Header IP
  | AAAA RR_Header IP
  | TXT RR_Header "string list"
  | ANY RR_Header
  | SOA RR_Header string string uint32 uint32 uint32 uint32 uint32
  | TSIG RR_Header string uint64 uint16 uint16

fun Header :: "RR \<Rightarrow> RR_Header" where
  "Header (A h _) = h"
| "Header (AAAA h _) = h"
| "Header (TXT h _) = h"
| "Header (ANY h) = h"
| "Header (SOA h _ _ _ _ _ _ _) = h"
| "Header (TSIG h _ _ _ _) = h"

fun is_address :: "RR \<Rightarrow> bool" where
  "is_address (A _ _) = True"
| "is_address (AAAA _ _) = True"
| "is_address _ = False"

fun is_TXT :: "RR \<Rightarrow> bool" where
  "is_TXT (TXT _ _) = True"
| "is_TXT _ = False"

fun is_TSIG :: "RR \<Rightarrow> bool" where
  "is_TSIG (TSIG _ _ _ _ _) = True"
| "is_TSIG _ = False"

record Question =
  Qname :: string
  Qtype :: uint16
  Qclass :: uint16

text \<open>
  \<open>dns.Msg\<close>: the header fields that the handlers or \<open>SetReply\<close> write, the \<open>Compress\<close>
  switch and the four sections (Go's field \<open>Question\<close> is \<open>Questions\<close> here, beside the
  record of that name). A fresh \<open>new(dns.Msg)\<close> is all zero.
\<close>

record Msg =
  MsgId :: uint16
  Response :: bool
  Opcode :: nat
  RecursionDesired :: bool
  Truncated :: bool
  Rcode :: nat
  Compress :: bool
  Questions :: "Question list"
  Answer :: "RR list"
  Ns :: "RR list"
  Extra :: "RR list"

definition new_Msg :: Msg where
  "new_Msg = \<lparr>MsgId = 0, Response = False, Opcode = 0, RecursionDesired = False,
     Truncated = False, Rcode = 0, Compress = False, Questions = [], Answer = [], Ns = [],
     Extra = []\<rparr>"

text \<open>
  Library method \<open>(*Msg).SetReply\<close>: the reply takes the request's id and
  recursion-desired bit, is marked a response to a standard query with rcode success,
  and copies the request's first question when there is one.
\<close>

definition SetReply :: "Msg \<Rightarrow> Msg \<Rightarrow> Msg" where
  "SetReply m request =
     m\<lparr>MsgId := MsgId request, RecursionDesired := RecursionDesired request,
       Response := True, Opcode := 0, Rcode := 0,
       Questions := (if Questions request = [] then Questions m
                     else [hd (Questions request)])\<rparr>"

text \<open>
  Library method \<open>(*Msg).IsTsig\<close>: the TSIG record of a message is the last record of its
  extra section, if that record is a TSIG record; \<open>None\<close> is the nil pointer.
\<close>

definition IsTsig :: "Msg \<Rightarrow> RR option" where
  "IsTsig m =
     (if Extra m = [] then None
      else if is_TSIG (last (Extra m)) then Some (last (Extra m)) else None)"

text \<open>
  Library method \<open>(*Msg).SetTsig\<close>: appends a skeleton TSIG record (class ANY, TTL 0)
  with the given key name, algorithm, fudge and signing time and the message's id to
  the extra section.
\<close>

definition SetTsig :: "Msg \<Rightarrow> string \<Rightarrow> string \<Rightarrow> uint16 \<Rightarrow> int \<Rightarrow> Msg" where
  "SetTsig m keyname algo fudge timesigned =
     m\<lparr>Extra := Extra m @
        [TSIG \<lparr>Name = keyname, Rrtype = TypeTSIG, Class = ClassANY, Ttl = 0, Rdlength = 0\<rparr>
           algo (word_of_int timesigned) fudge (MsgId m)]\<rparr>"

subsection \<open>Go library functions the handlers call\<close>

text \<open>The prefix of an IPv4 address in 16-byte form: ten zero bytes, then \<open>ff ff\<close>.\<close>

definition v4InV6Prefix :: "byte list" where
  "v4InV6Prefix = [0, 0, 0, 0, 0, 0, 0, 0, 0, 0, 0xff, 0xff]"

text \<open>
  \<open>net.IP.To4\<close>: a 4-byte address is returned as it is, a 16-byte address with the
  IPv4-in-IPv6 prefix gives its last four bytes, anything else is not an IPv4 address
  (nil, here \<open>None\<close>).
\<close>

definition To4 :: "IP \<Rightarrow> IP option" where
  "To4 ip =
     (if length ip = 4 then Some ip
      else if length ip = 16 \<and> take 12 ip = v4InV6Prefix then Some (drop 12 ip)
      else None)"

text \<open>\<open>net.IPv4(a, b, c, d)\<close> builds the 16-byte form of the address.\<close>

definition IPv4 :: "byte \<Rightarrow> byte \<Rightarrow> byte \<Rightarrow> byte \<Rightarrow> IP" where
  "IPv4 a b c d = v4InV6Prefix @ [a, b, c, d]"

text \<open>A slice-valued result stored in a field: nil is the empty slice.\<close>

fun slice_of :: "IP option \<Rightarrow> IP" where
  "slice_of None = []"
| "slice_of (Some ip) = ip"

text \<open>\<open>strconv.Itoa\<close>: decimal digits, with a minus sign for a negative number.\<close>

definition digit_char :: "int \<Rightarrow> char" where
  "digit_char d = ''0123456789'' ! nat d"

function digits :: "int \<Rightarrow> string" where
  "digits n = (if n < 10 then [digit_char n] else digits (n div 10) @ [digit_char (n mod 10)])"
  by pat_completeness auto
termination
  by (relation "measure nat") auto

declare digits.simps [simp del]

definition Itoa :: "int \<Rightarrow> string" where
  "Itoa i = (if i < 0 then CHR ''-'' # digits (- i) else digits i)"

text \<open>
  \<open>strconv.Atoi\<close> with its error dropped (\<open>octetInt, _ := strconv.Atoi(...)\<close>): one
  optional sign, then decimal digits only. A syntax error gives 0; a value outside
  the 64-bit \<open>int\<close> gives the nearest bound.
\<close>

definition is_digit :: "char \<Rightarrow> bool" where
  "is_digit c = (c \<in> set ''0123456789'')"

definition digit_val :: "char \<Rightarrow> int" where
  "digit_val c = of_char c - 48"

definition decimal :: "string \<Rightarrow> int" where
  "decimal s = foldl (\<lambda>n c. 10 * n + digit_val c) 0 s"

definition Atoi :: "string \<Rightarrow> int" where
  "Atoi s =
     (let signed = (s \<noteq> [] \<and> (hd s = CHR ''+'' \<or> hd s = CHR ''-''));
          body = (if signed then tl s else s)
      in if body = [] \<or> \<not> list_all is_digit body then 0
         else if signed \<and> hd s = CHR ''-'' then max (- (2 ^ 63)) (- decimal body)
         else min (2 ^ 63 - 1) (decimal body))"

text \<open>\<open>strings.Split(s, ".")\<close> for a one-character separator.\<close>

fun Split :: "string \<Rightarrow> char \<Rightarrow> string list" where
  "Split [] sep = [[]]"
| "Split (c # cs) sep =
     (if c = sep then [] # Split cs sep
      else (case Split cs sep of [] \<Rightarrow> [[c]] | p # ps \<Rightarrow> (c # p) # ps))"

text \<open>Go's \<open>%\<close> truncates towards zero: the remainder has the sign of the dividend.\<close>

definition go_rem :: "int \<Rightarrow> int \<Rightarrow> int" where
  "go_rem a b = sgn a * (\<bar>a\<bar> mod \<bar>b\<bar>)"

subsection \<open>Session, flags and what a handler leaves behind\<close>

text \<open>
  \<open>w.RemoteAddr()\<close> is a \<open>*net.UDPAddr\<close> on the datagram listener and a \<open>*net.TCPAddr\<close>
  on the stream listener (\<open>main\<close> starts \<open>serve("tcp", ...)\<close> and \<open>serve("udp", ...)\<close> and
  nothing else); both carry an IP and a port of Go type \<open>int\<close>.
\<close>

datatype Addr = UDPAddr IP int | TCPAddr IP int

fun is_UDPAddr :: "Addr \<Rightarrow> bool" where
  "is_UDPAddr (UDPAddr _ _) = True"
| "is_UDPAddr (TCPAddr _ _) = False"

fun is_TCPAddr :: "Addr \<Rightarrow> bool" where
  "is_TCPAddr (TCPAddr _ _) = True"
| "is_TCPAddr (UDPAddr _ _) = False"

fun addr_IP :: "Addr \<Rightarrow> IP" where
  "addr_IP (UDPAddr ip _) = ip"
| "addr_IP (TCPAddr ip _) = ip"

fun addr_Port :: "Addr \<Rightarrow> int" where
  "addr_Port (UDPAddr _ p) = p"
| "addr_Port (TCPAddr _ p) = p"

text \<open>
  \<open>serve\<close> (lines 224--239) starts a \<open>dns.Server\<close> on \<open>:8053\<close> with the pooling flag; its
  key table is nil for the empty key name and \<open>{name: secret}\<close> otherwise.
\<close>

record Server =
  Pool :: bool
  ListenAddr :: string
  Net :: string
  TsigSecret :: "(string \<times> string) list option"

definition serve :: "bool \<Rightarrow> string \<Rightarrow> string \<Rightarrow> string \<Rightarrow> Server" where
  "serve pool net name secret =
     (if name = [] then \<lparr>Pool = pool, ListenAddr = '':8053'', Net = net, TsigSecret = None\<rparr>
      else \<lparr>Pool = pool, ListenAddr = '':8053'', Net = net,
             TsigSecret = Some [(name, secret)]\<rparr>)"

text \<open>
  The \<open>dns.ResponseWriter\<close> as a handler reads it: the remote address, the result of
  the server's TSIG check of the request (\<open>TsigStatus()\<close>, \<open>None\<close> for a nil error) and
  the server it belongs to.
\<close>

record ResponseWriter =
  RemoteAddr :: Addr
  TsigStatus :: "string option"
  server :: Server

text \<open>
  What \<open>handleReflect\<close> reads besides its arguments: the flags \<open>*printf\<close> and \<open>*compress\<close>,
  the clock (\<open>time.Now().Unix()\<close>), the library's serialiser \<open>m.Pack()\<close> (its error is
  dropped, a failed pack is the empty buffer) and printer \<open>m.String()\<close>, and the error
  that \<open>tr.Out\<close> returns.
\<close>

record Env =
  printf :: bool
  compress :: bool
  now :: int
  Pack :: "Msg \<Rightarrow> byte list"
  String_of :: "Msg \<Rightarrow> string"
  Out_err :: "string option"

text \<open>Lines written to standard output (\<open>fmt.Printf\<close>) and standard error (\<open>println\<close>).\<close>

datatype Output = Stdout string | Stderr string

text \<open>
  How a handler leaves:
  \<^item> \<open>Panic\<close>: a run-time panic (index out of range, nil dereference);
  \<^item> \<open>Fatal\<close>: \<open>log.Fatal\<close>, the process exits;
  \<^item> \<open>WriteMsg m\<close>: it called \<open>w.WriteMsg(m)\<close> and returned;
  \<^item> \<open>Write m buf\<close>: it called \<open>w.Write(buf)\<close> (\<open>m\<close> is the reply that was packed)
    and returned;
  \<^item> \<open>Transfer rrs\<close>: it sent one \<open>dns.Envelope\<close> with the records \<open>rrs\<close> down the
    transfer channel, hijacked the connection and returned;
  \<^item> \<open>Aborted\<close>: \<open>tr.Out\<close> failed and it returned with nothing sent.
\<close>

datatype Outcome =
    Panic
  | Fatal string
  | WriteMsg Msg
  | Write Msg "byte list"
  | Transfer "RR list"
  | Aborted

record Handled =
  counter :: uint64
  printed :: "Output list"
  outcome :: Outcome

text \<open>The reply message of an outcome, if the handler got as far as sending one.\<close>

fun reply :: "Outcome \<Rightarrow> Msg option" where
  "reply (WriteMsg m) = Some m"
| "reply (Write m _) = Some m"
| "reply _ = None"

text \<open>Whether the handler left through the zone-transfer branch (lines 187--199).\<close>

fun in_transfer :: "Outcome \<Rightarrow> bool" where
  "in_transfer (Transfer _) = True"
| "in_transfer Aborted = True"
| "in_transfer _ = False"

subsection \<open>\<open>handleReflect\<close> (lines 136--222)\<close>

definition dom_zone :: string where
  "dom_zone = ''whoami.miek.nl.''"

text \<open>
  Lines 152--161: the two type assertions on \<open>w.RemoteAddr()\<close>. The variables start at
  their zero values; each assertion that holds sets the port text, the address and
  whether \<open>To4\<close> finds an IPv4 address in it.
\<close>

definition remote :: "ResponseWriter \<Rightarrow> string \<times> IP \<times> bool" where
  "remote w =
     (let ip = RemoteAddr w;
          s0 = ([], [], False);
          s1 = (if is_UDPAddr ip
                then (''Port: '' @ Itoa (addr_Port ip) @ '' (udp)'', addr_IP ip,
                      To4 (addr_IP ip) \<noteq> None)
                else s0)
      in if is_TCPAddr ip
         then (''Port: '' @ Itoa (addr_Port ip) @ '' (tcp)'', addr_IP ip,
               To4 (addr_IP ip) \<noteq> None)
         else s1)"

text \<open>Lines 163--171: the record that carries the client's address.\<close>

definition self_rr :: "IP \<Rightarrow> bool \<Rightarrow> RR" where
  "self_rr a v4 =
     (if v4
      then A \<lparr>Name = dom_zone, Rrtype = TypeA, Class = ClassINET, Ttl = 0, Rdlength = 0\<rparr>
             (slice_of (To4 a))
      else AAAA \<lparr>Name = dom_zone, Rrtype = TypeAAAA, Class = ClassINET, Ttl = 0, Rdlength = 0\<rparr>
             a)"

text \<open>Lines 173--175: the TXT record with the port text.\<close>

definition txt_rr :: "string \<Rightarrow> RR" where
  "txt_rr str =
     TXT \<lparr>Name = dom_zone, Rrtype = TypeTXT, Class = ClassINET, Ttl = 0, Rdlength = 0\<rparr> [str]"

text \<open>
  Line 195: \<open>dns.NewRR\<close> on the constant zone-file line
  \<open>whoami.miek.nl. 0 IN SOA linode.atoom.net. miek.miek.nl. 2009032802 21600 7200 604800 3600\<close>.
\<close>

definition soa :: RR where
  "soa = SOA \<lparr>Name = ''whoami.miek.nl.'', Rrtype = TypeSOA, Class = ClassINET, Ttl = 0,
               Rdlength = 0\<rparr>
           ''linode.atoom.net.'' ''miek.miek.nl.'' 2009032802 21600 7200 604800 3600"

text \<open>
  Lines 203--209: a request whose last extra record is a TSIG record gets a TSIG record
  on the reply when the writer's TSIG status is nil, named after the request's key;
  otherwise the status is printed.
\<close>

definition tsig_step :: "Env \<Rightarrow> ResponseWriter \<Rightarrow> Msg \<Rightarrow> Msg \<Rightarrow> Msg \<times> Output list" where
  "tsig_step env w r m =
     (case IsTsig r of
        None \<Rightarrow> (m, [])
      | Some t \<Rightarrow>
          (case TsigStatus w of
             None \<Rightarrow> (SetTsig m (Name (Header (last (Extra r)))) HmacMD5 300 (now env), [])
           | Some e \<Rightarrow> (m, [Stderr (''Status '' @ e @ [CHR 0x0A])])))"

text \<open>
  Lines 203--221, after the sections are filled: TSIG, the optional dump of the reply,
  then either half of the packed reply with the TC bit for the name \<open>tc.miek.nl.\<close>, or
  the whole reply.
\<close>

definition send :: "Env \<Rightarrow> ResponseWriter \<Rightarrow> Msg \<Rightarrow> Msg \<Rightarrow> Outcome \<times> Output list" where
  "send env w r m0 =
     (let (m, out1) = tsig_step env w r m0;
          out2 = (if printf env then [Stdout (String_of env m @ [CHR 0x0A])] else [])
      in case Questions m of
           [] \<Rightarrow> (Panic, out1 @ out2)
         | q # _ \<Rightarrow>
             if Qname q = ''tc.miek.nl.''
             then (let m' = m\<lparr>Truncated := True\<rparr>; buf = Pack env m'
                   in (Write m' (take (length buf div 2) buf), out1 @ out2))
             else (WriteMsg m, out1 @ out2))"

text \<open>
  The handler. \<open>reflectHandled\<close> is the global counter (a Go \<open>int\<close>, 64 bits, read
  signed). The \<open>switch\<close> on the first question's type tries \<open>TypeTXT\<close>, then
  \<open>TypeAAAA, TypeA\<close>, then \<open>TypeAXFR, TypeIXFR\<close>; \<open>default\<close> falls through into the
  \<open>TypeAAAA, TypeA\<close> body. Indexing an empty question section panics.
\<close>

definition handleReflect :: "Env \<Rightarrow> uint64 \<Rightarrow> ResponseWriter \<Rightarrow> Msg \<Rightarrow> Handled" where
  "handleReflect env reflectHandled w r =
     (let n = reflectHandled + 1;
          out0 = (if go_rem (sint n) 1000 = 0
                  then [Stdout (''Served '' @ Itoa (sint n) @ '' reflections'' @ [CHR 0x0A])]
                  else []);
          m = (SetReply new_Msg r)\<lparr>Compress := compress env\<rparr>;
          (str, a, v4) = remote w;
          rr = self_rr a v4;
          t = txt_rr str
      in case Questions r of
           [] \<Rightarrow> \<lparr>counter = n, printed = out0, outcome = Panic\<rparr>
         | q # _ \<Rightarrow>
             if Qtype q = TypeTXT
             then (let (oc, out) = send env w r (m\<lparr>Answer := Answer m @ [t], Extra := Extra m @ [rr]\<rparr>)
                   in \<lparr>counter = n, printed = out0 @ out, outcome = oc\<rparr>)
             else if Qtype q = TypeAAAA \<or> Qtype q = TypeA
             then (let (oc, out) = send env w r (m\<lparr>Answer := Answer m @ [rr], Extra := Extra m @ [t]\<rparr>)
                   in \<lparr>counter = n, printed = out0 @ out, outcome = oc\<rparr>)
             else if Qtype q = TypeAXFR \<or> Qtype q = TypeIXFR
             then (case Out_err env of
                     Some e \<Rightarrow> \<lparr>counter = n, printed = out0, outcome = Aborted\<rparr>
                   | None \<Rightarrow> \<lparr>counter = n, printed = out0, outcome = Transfer [soa, t, rr, soa]\<rparr>)
             else (let (oc, out) = send env w r (m\<lparr>Answer := Answer m @ [rr], Extra := Extra m @ [t]\<rparr>)
                   in \<lparr>counter = n, printed = out0 @ out, outcome = oc\<rparr>))"

subsection \<open>\<open>lookUpNameInDb\<close> (lines 63--86) and \<open>handleSqlite\<close> (lines 90--134)\<close>

text \<open>
  The table \<open>records\<close> of the SQLite file has the columns name, type, ttl and rdata.
  \<open>rows.Scan\<close> assigns the columns in order and stops at the first one it cannot
  convert; only the \<open>ttl\<close> column, scanned into an \<open>int\<close>, can fail, so a row keeps
  \<open>None\<close> there when its value is no integer.
\<close>

record Row =
  r_name :: string
  r_type :: string
  r_ttl :: "int option"
  r_rdata :: string

text \<open>
  The store as one lookup meets it: \<open>sql.Open\<close>, \<open>db.Begin\<close> or \<open>tx.Prepare\<close> fails
  (\<open>log.Fatal\<close>), or \<open>stmt.Query\<close> fails (its error is not checked and the nil
  \<open>rows\<close> is dereferenced), or the query runs over the rows of the table.
\<close>

datatype Store = SetupFails string | QueryFails string | Table "Row list"

text \<open>
  One pass of the loop \<open>for rows.Next() { err = rows.Scan(&name, &rrtype, &ttl, &rdata) }\<close>
  on the state \<open>(ttl, rdata, err)\<close>.
\<close>

fun scan :: "int \<times> string \<times> string option \<Rightarrow> Row \<Rightarrow> int \<times> string \<times> string option" where
  "scan (ttl, rdata, err) row =
     (case r_ttl row of
        None \<Rightarrow> (ttl, rdata, Some ''sql: Scan error on column index 2'')
      | Some v \<Rightarrow> (v, r_rdata row, None))"

datatype 'a Run = Panics | Exits string | Returns 'a

text \<open>
  \<open>select * from records where name = ? and type = ?\<close>; the named results start at
  their zero values and every row of the result overwrites them.
\<close>

definition lookUpNameInDb :: "Store \<Rightarrow> string \<Rightarrow> string \<Rightarrow> (int \<times> string \<times> string option) Run" where
  "lookUpNameInDb db name rrtype =
     (case db of
        SetupFails e \<Rightarrow> Exits e
      | QueryFails e \<Rightarrow> Panics
      | Table rows \<Rightarrow>
          Returns (foldl scan (0, [], None)
                     (filter (\<lambda>row. r_name row = name \<and> r_type row = rrtype) rows)))"

text \<open>
  Lines 106--111: the address text is split at the dots and part \<open>i\<close>, read as a
  number and cut to a byte, is stored at index \<open>i\<close> of a zeroed four-byte array; a
  fifth part indexes the array out of range (\<open>None\<close>).
\<close>

definition octets_of :: "string \<Rightarrow> byte list option" where
  "octets_of rdata =
     (let stringOctets = Split rdata CHR ''.''
      in if length stringOctets > 4 then None
         else Some (foldl (\<lambda>octets (i, s). octets[i := word_of_int (Atoi s)])
                      [0, 0, 0, 0] (enumerate 0 stringOctets)))"

text \<open>
  The handler. A query of type A is looked up in the store and answered with an A
  record of the stored TTL and address; every other type gets an ANY record with
  TTL 60 and no lookup.
\<close>

definition handleSqlite :: "Store \<Rightarrow> ResponseWriter \<Rightarrow> Msg \<Rightarrow> Outcome" where
  "handleSqlite db w r =
     (let m = SetReply new_Msg r
      in case Questions r of
           [] \<Rightarrow> Panic
         | q # _ \<Rightarrow>
             (let n = Qname q
              in if Qtype q = TypeA
                 then (case lookUpNameInDb db (Qname q) ''A'' of
                         Panics \<Rightarrow> Panic
                       | Exits e \<Rightarrow> Fatal e
                       | Returns (ttl, rdata, err) \<Rightarrow>
                           (case err of
                              Some e \<Rightarrow> Fatal e
                            | None \<Rightarrow>
                                (case octets_of rdata of
                                   None \<Rightarrow> Panic
                                 | Some octets \<Rightarrow>
                                     WriteMsg (m\<lparr>Answer := Answer m @
                                       [A \<lparr>Name = n, Rrtype = TypeA, Class = ClassINET,
                                           Ttl = word_of_int ttl, Rdlength = 0\<rparr>
                                          (slice_of (To4 (IPv4 (octets ! 0) (octets ! 1)
                                             (octets ! 2) (octets ! 3))))]\<rparr>))))
                 else WriteMsg (m\<lparr>Answer := Answer m @
                        [ANY \<lparr>Name = n, Rrtype = TypeANY, Class = ClassINET, Ttl = 60,
                              Rdlength = 0\<rparr>]\<rparr>)))"

subsection \<open>The counter under two listeners\<close>

text \<open>
  \<open>reflectHandled += 1\<close> (line 139) on the plain global is a read of the global and a
  write of the value read plus one, and \<open>main\<close> runs the handler on the goroutines of
  both listeners with nothing that orders the read and write of one call against those
  of another. A schedule lists the order in which the calls for the queries
  \<open>0, 1, ...\<close> read (\<open>Load i\<close>) and write (\<open>Store i\<close>) the global; \<open>handleReflect\<close> is
  given the value its call read, and its \<open>counter\<close> is the value the call writes.
\<close>

datatype Step = Load nat | Store nat





subsection \<open>Example sessions and requests\<close>

text \<open>
  The surroundings of the examples: no dump of replies, no compression, a fixed clock,
  a serialiser that gives a seven-byte buffer, and a transfer that starts without error.
\<close>

definition ex_env :: Env where
  "ex_env = \<lparr>printf = False, compress = False, now = 1383220800,
     Pack = (\<lambda>m. [0x08, 0x6d, 0x86, 0x00, 0x00, 0x01, 0x00]),
     String_of = (\<lambda>m. '';; opcode: QUERY''), Out_err = None\<rparr>"

text \<open>
  The client of the comment at the head of the file and of the specification's example:
  203.0.113.7 from UDP port 40000, on a server without a key.
\<close>

definition ex_udp :: ResponseWriter where
  "ex_udp = \<lparr>RemoteAddr = UDPAddr [203, 0, 113, 7] 40000, TsigStatus = None,
     server = serve False ''udp'' [] []\<rparr>"

text \<open>
  An IPv6 client (2001:db8::1) from TCP port 53211, on a server started with the key
  \<open>axfr.:c2VjcmV0\<close>, and the status the writer reports for a request's TSIG record.
\<close>

definition ex_tcp :: "string option \<Rightarrow> ResponseWriter" where
  "ex_tcp status = \<lparr>RemoteAddr = TCPAddr [0x20, 0x01, 0x0d, 0xb8, 0, 0, 0, 0, 0, 0, 0, 0, 0, 0, 0, 1] 53211,
     TsigStatus = status, server = serve False ''tcp'' ''axfr.'' ''c2VjcmV0''\<rparr>"

text \<open>A request with one question of class INET and the given extra section.\<close>

definition ex_query :: "string \<Rightarrow> uint16 \<Rightarrow> RR list \<Rightarrow> Msg" where
  "ex_query name qtype extra =
     new_Msg\<lparr>MsgId := 2157, RecursionDesired := True,
       Questions := [\<lparr>Qname = name, Qtype = qtype, Qclass = ClassINET\<rparr>], Extra := extra\<rparr>"

text \<open>The TSIG record of a request signed with the key \<open>axfr.\<close>.\<close>

definition ex_tsig :: RR where
  "ex_tsig = TSIG \<lparr>Name = ''axfr.'', Rrtype = TypeTSIG, Class = ClassANY, Ttl = 0, Rdlength = 0\<rparr>
     HmacMD5 1383220795 300 2157"

text \<open>A record store with one address record.\<close>

definition ex_store :: Store where
  "ex_store = Table [\<lparr>r_name = ''www.baz.miek.nl.'', r_type = ''A'', r_ttl = Some 3600,
     r_rdata = ''192.0.2.10''\<rparr>]"


text \<open>The surroundings of the examples with a transfer that fails to start.\<close>

definition ex_env_no_transfer :: Env where
  "ex_env_no_transfer = ex_env\<lparr>Out_err := Some ''dns: bad xfr''\<rparr>"

section \<open>Properties\<close>

subsection \<open>Auxiliary facts\<close>

lemmas dns_types =
  TypeA_def TypeSOA_def TypeTXT_def TypeAAAA_def TypeTSIG_def TypeIXFR_def TypeAXFR_def
  TypeANY_def

lemma To4_length: "To4 ip = Some ip4 \<Longrightarrow> length ip4 = 4"
  by (auto simp: To4_def split: if_splits)

lemma remote_eq:
  "remote w =
     (''Port: '' @ Itoa (addr_Port (RemoteAddr w)) @
        (case RemoteAddr w of UDPAddr _ _ \<Rightarrow> '' (udp)'' | TCPAddr _ _ \<Rightarrow> '' (tcp)''),
      addr_IP (RemoteAddr w), To4 (addr_IP (RemoteAddr w)) \<noteq> None)"
  by (cases "RemoteAddr w") (simp_all add: remote_def)

lemma self_rr_kind: "is_address (self_rr a v4) \<and> \<not> is_TXT (self_rr a v4) \<and> \<not> is_TSIG (self_rr a v4)"
  by (simp add: self_rr_def)

lemma txt_rr_kind: "is_TXT (txt_rr str) \<and> \<not> is_address (txt_rr str) \<and> \<not> is_TSIG (txt_rr str)"
  by (simp add: txt_rr_def)

lemma IsTsig_Some: "IsTsig r = Some t \<Longrightarrow> t = last (Extra r) \<and> is_TSIG t"
  by (auto simp: IsTsig_def split: if_splits)

lemma tsig_step_Questions: "Questions (fst (tsig_step env w r m)) = Questions m"
  by (simp add: tsig_step_def SetTsig_def split: option.splits)

lemma tsig_step_unsigned:
  "IsTsig r = None \<or> TsigStatus w \<noteq> None \<Longrightarrow> fst (tsig_step env w r m) = m"
  by (auto simp: tsig_step_def split: option.splits)

lemma tsig_step_signed:
  "IsTsig r = Some t \<Longrightarrow> TsigStatus w = None \<Longrightarrow>
   fst (tsig_step env w r m) = SetTsig m (Name (Header t)) HmacMD5 300 (now env)"
  by (auto simp: tsig_step_def dest: IsTsig_Some)

text \<open>What \<open>send\<close> hands to the writer, once the reply has a question.\<close>

lemma send_outcome:
  assumes "Questions m0 = q # qs"
  shows "fst (send env w r m0) =
     (let m = fst (tsig_step env w r m0)
      in if Qname q = ''tc.miek.nl.''
         then Write (m\<lparr>Truncated := True\<rparr>)
                (take (length (Pack env (m\<lparr>Truncated := True\<rparr>)) div 2)
                   (Pack env (m\<lparr>Truncated := True\<rparr>)))
         else WriteMsg m)"
proof (cases "tsig_step env w r m0")
  case (Pair m out)
  with assms tsig_step_Questions [of env w r m0] have "Questions m = q # qs"
    by simp
  with Pair show ?thesis
    by (simp add: send_def Let_def)
qed

lemma send_printed:
  "set (snd (tsig_step env w r m0)) \<subseteq> set (snd (send env w r m0))"
  by (cases "tsig_step env w r m0") (auto simp: send_def Let_def split: list.splits)

text \<open>
  The message that \<open>handleReflect\<close> has built when it leaves the \<open>switch\<close> on a type
  other than AXFR and IXFR.
\<close>

lemma handleReflect_outcome:
  assumes "Questions r = q # qs" and "Qtype q \<noteq> TypeAXFR" and "Qtype q \<noteq> TypeIXFR"
  shows "outcome (handleReflect env c w r) =
     fst (send env w r
       ((SetReply new_Msg r)
          \<lparr>Compress := compress env,
            Answer := (if Qtype q = TypeTXT then [txt_rr (fst (remote w))]
                       else [self_rr (fst (snd (remote w))) (snd (snd (remote w)))]),
            Extra := (if Qtype q = TypeTXT then [self_rr (fst (snd (remote w))) (snd (snd (remote w)))]
                      else [txt_rr (fst (remote w))])\<rparr>))"
  using assms
  by (simp add: handleReflect_def Let_def SetReply_def new_Msg_def split: prod.splits)

text \<open>What the handler prints on that way: the progress line, then what \<open>send\<close> prints.\<close>

lemma handleReflect_printed:
  assumes "Questions r = q # qs" and "Qtype q \<noteq> TypeAXFR" and "Qtype q \<noteq> TypeIXFR"
  shows "printed (handleReflect env c w r) =
     (if go_rem (sint (c + 1)) 1000 = 0
      then [Stdout (''Served '' @ Itoa (sint (c + 1)) @ '' reflections'' @ [CHR 0x0A])]
      else []) @
     snd (send env w r
       ((SetReply new_Msg r)
          \<lparr>Compress := compress env,
            Answer := (if Qtype q = TypeTXT then [txt_rr (fst (remote w))]
                       else [self_rr (fst (snd (remote w))) (snd (snd (remote w)))]),
            Extra := (if Qtype q = TypeTXT then [self_rr (fst (snd (remote w))) (snd (snd (remote w)))]
                      else [txt_rr (fst (remote w))])\<rparr>))"
  using assms
  by (simp add: handleReflect_def Let_def SetReply_def new_Msg_def split: prod.splits)

text \<open>
  The reply to a query of a type other than AXFR and IXFR: the two records in the
  sections the type selects, and after the record of the extra section whatever the
  TSIG step added.
\<close>

lemma handleReflect_reply:
  assumes "Questions r = q # qs" and "Qtype q \<noteq> TypeAXFR" and "Qtype q \<noteq> TypeIXFR"
  shows "\<exists>m ts. reply (outcome (handleReflect env c w r)) = Some m \<and>
     Answer m = (if Qtype q = TypeTXT then [txt_rr (fst (remote w))]
                 else [self_rr (fst (snd (remote w))) (snd (snd (remote w)))]) \<and>
     Extra m = (if Qtype q = TypeTXT then [self_rr (fst (snd (remote w))) (snd (snd (remote w)))]
                else [txt_rr (fst (remote w))]) @ ts \<and>
     ts = (case IsTsig r of
             None \<Rightarrow> []
           | Some t \<Rightarrow>
               (case TsigStatus w of
                  None \<Rightarrow> [TSIG \<lparr>Name = Name (Header t), Rrtype = TypeTSIG, Class = ClassANY,
                                  Ttl = 0, Rdlength = 0\<rparr>
                             HmacMD5 (word_of_int (now env)) 300 (MsgId r)]
                | Some e \<Rightarrow> [])) \<and>
     Truncated m = (Qname q = ''tc.miek.nl.'') \<and>
     outcome (handleReflect env c w r) =
       (if Qname q = ''tc.miek.nl.''
        then Write m (take (length (Pack env m) div 2) (Pack env m)) else WriteMsg m)"
proof -
  let ?m0 = "(SetReply new_Msg r)
          \<lparr>Compress := compress env,
            Answer := (if Qtype q = TypeTXT then [txt_rr (fst (remote w))]
                       else [self_rr (fst (snd (remote w))) (snd (snd (remote w)))]),
            Extra := (if Qtype q = TypeTXT then [self_rr (fst (snd (remote w))) (snd (snd (remote w)))]
                      else [txt_rr (fst (remote w))])\<rparr>"
  have q0: "Questions ?m0 = q # []"
    using assms(1) by (simp add: SetReply_def)
  have oc: "outcome (handleReflect env c w r) = fst (send env w r ?m0)"
    by (rule handleReflect_outcome [OF assms])
  have tr: "Truncated ?m0 = False" and id: "MsgId ?m0 = MsgId r"
    by (simp_all add: SetReply_def new_Msg_def)
  show ?thesis
  proof (cases "IsTsig r")
    case None
    then have "fst (tsig_step env w r ?m0) = ?m0"
      by (simp add: tsig_step_unsigned)
    with oc None tr show ?thesis
      by (simp add: send_outcome [OF q0] Let_def)
  next
    case (Some t)
    show ?thesis
    proof (cases "TsigStatus w")
      case None
      with Some have "fst (tsig_step env w r ?m0) = SetTsig ?m0 (Name (Header t)) HmacMD5 300 (now env)"
        by (simp add: tsig_step_signed)
      with oc Some None tr id show ?thesis
        by (simp add: send_outcome [OF q0] Let_def SetTsig_def)
    next
      case (Some e)
      then have "fst (tsig_step env w r ?m0) = ?m0"
        by (simp add: tsig_step_unsigned)
      with oc \<open>IsTsig r = Some t\<close> Some tr show ?thesis
        by (simp add: send_outcome [OF q0] Let_def)
    qed
  qed
qed

subsection \<open>Reply shape of \<open>handleReflect\<close>\<close>

text \<open>
  Claim C1. For every reflection query of type A, AAAA or any unrecognised type (any
  type other than TXT, AXFR and IXFR), the reply's answer section is exactly one address
  record, chosen by the session's remote address and not by the query type: an A record
  with the four IPv4 bytes that \<open>To4\<close> finds in the remote address, or else an AAAA
  record with the remote address itself; its TTL is 0, and no second address record
  is in the reply. The extra section contains exactly one TXT record, with the text
  \<open>Port: <port> (udp)\<close> or \<open>Port: <port> (tcp)\<close> for the session's port and transport;
  the only other record it can hold is the TSIG record of a signed reply.
  (\<open>To4_length\<close>: the bytes of the A record are four.)
\<close>

theorem reflect_address_answer_txt_extra:
  assumes "Questions r = q # qs"
    and "Qtype q \<notin> {TypeTXT, TypeAXFR, TypeIXFR}"
  shows "\<exists>m. reply (outcome (handleReflect env c w r)) = Some m \<and>
     Answer m =
       [case To4 (addr_IP (RemoteAddr w)) of
          Some ip4 \<Rightarrow>
            A \<lparr>Name = dom_zone, Rrtype = TypeA, Class = ClassINET, Ttl = 0, Rdlength = 0\<rparr> ip4
        | None \<Rightarrow>
            AAAA \<lparr>Name = dom_zone, Rrtype = TypeAAAA, Class = ClassINET, Ttl = 0, Rdlength = 0\<rparr>
              (addr_IP (RemoteAddr w))] \<and>
     filter is_address (Extra m) = [] \<and>
     filter is_TXT (Extra m) =
       [TXT \<lparr>Name = dom_zone, Rrtype = TypeTXT, Class = ClassINET, Ttl = 0, Rdlength = 0\<rparr>
          [''Port: '' @ Itoa (addr_Port (RemoteAddr w)) @
             (case RemoteAddr w of UDPAddr _ _ \<Rightarrow> '' (udp)'' | TCPAddr _ _ \<Rightarrow> '' (tcp)'')]] \<and>
     filter (\<lambda>x. \<not> is_TSIG x) (Extra m) = filter is_TXT (Extra m)"
proof -
  from assms(2) have ty: "Qtype q \<noteq> TypeTXT" "Qtype q \<noteq> TypeAXFR" "Qtype q \<noteq> TypeIXFR"
    by simp_all
  from handleReflect_reply [OF assms(1) ty(2) ty(3), of env c w] ty(1)
  obtain m ts where m: "reply (outcome (handleReflect env c w r)) = Some m"
    and an: "Answer m = [self_rr (fst (snd (remote w))) (snd (snd (remote w)))]"
    and ex: "Extra m = [txt_rr (fst (remote w))] @ ts"
    and ts: "ts = (case IsTsig r of
             None \<Rightarrow> []
           | Some t \<Rightarrow>
               (case TsigStatus w of
                  None \<Rightarrow> [TSIG \<lparr>Name = Name (Header t), Rrtype = TypeTSIG, Class = ClassANY,
                                  Ttl = 0, Rdlength = 0\<rparr>
                             HmacMD5 (word_of_int (now env)) 300 (MsgId r)]
                | Some e \<Rightarrow> []))"
    by auto
  from ts have fts: "filter is_address ts = []" "filter is_TXT ts = []"
    "filter (\<lambda>x. \<not> is_TSIG x) ts = []"
    by (simp_all split: option.splits)
  from an have "Answer m =
       [case To4 (addr_IP (RemoteAddr w)) of
          Some ip4 \<Rightarrow>
            A \<lparr>Name = dom_zone, Rrtype = TypeA, Class = ClassINET, Ttl = 0, Rdlength = 0\<rparr> ip4
        | None \<Rightarrow>
            AAAA \<lparr>Name = dom_zone, Rrtype = TypeAAAA, Class = ClassINET, Ttl = 0, Rdlength = 0\<rparr>
              (addr_IP (RemoteAddr w))]"
    by (simp add: remote_eq self_rr_def split: option.splits)
  moreover from ex fts have "filter is_address (Extra m) = []"
    by (simp add: txt_rr_def)
  moreover from ex fts have "filter is_TXT (Extra m) =
       [TXT \<lparr>Name = dom_zone, Rrtype = TypeTXT, Class = ClassINET, Ttl = 0, Rdlength = 0\<rparr>
          [''Port: '' @ Itoa (addr_Port (RemoteAddr w)) @
             (case RemoteAddr w of UDPAddr _ _ \<Rightarrow> '' (udp)'' | TCPAddr _ _ \<Rightarrow> '' (tcp)'')]]"
    by (simp add: txt_rr_def remote_eq)
  moreover from ex fts have "filter (\<lambda>x. \<not> is_TSIG x) (Extra m) = filter is_TXT (Extra m)"
    by (simp add: txt_rr_def)
  ultimately show ?thesis
    using m by blast
qed

text \<open>
  The specification's example: a query of type A from 203.0.113.7, UDP port 40000, is
  answered with the A record 203.0.113.7 and the text \<open>Port: 40000 (udp)\<close>.
\<close>

theorem reflect_address_answer_txt_extra_witness:
  "Questions (ex_query ''whoami.miek.nl.'' TypeA []) =
     \<lparr>Qname = ''whoami.miek.nl.'', Qtype = TypeA, Qclass = ClassINET\<rparr> # [] \<and>
   TypeA \<notin> {TypeTXT, TypeAXFR, TypeIXFR} \<and>
   (\<exists>m. reply (outcome (handleReflect ex_env 0 ex_udp (ex_query ''whoami.miek.nl.'' TypeA []))) = Some m \<and>
     Answer m =
       [A \<lparr>Name = ''whoami.miek.nl.'', Rrtype = TypeA, Class = ClassINET, Ttl = 0, Rdlength = 0\<rparr>
          [203, 0, 113, 7]] \<and>
     filter is_address (Extra m) = [] \<and>
     filter is_TXT (Extra m) =
       [TXT \<lparr>Name = ''whoami.miek.nl.'', Rrtype = TypeTXT, Class = ClassINET, Ttl = 0, Rdlength = 0\<rparr>
          [''Port: 40000 (udp)'']] \<and>
     filter (\<lambda>x. \<not> is_TSIG x) (Extra m) = filter is_TXT (Extra m))"
proof -
  have q: "Questions (ex_query ''whoami.miek.nl.'' TypeA []) =
     \<lparr>Qname = ''whoami.miek.nl.'', Qtype = TypeA, Qclass = ClassINET\<rparr> # []"
    by (simp add: ex_query_def new_Msg_def)
  have ty: "Qtype \<lparr>Qname = ''whoami.miek.nl.'', Qtype = TypeA, Qclass = ClassINET\<rparr>
      \<notin> {TypeTXT, TypeAXFR, TypeIXFR}"
    by (simp add: dns_types)
  have port: "Itoa 40000 = ''40000''"
    by (simp add: Itoa_def digits.simps digit_char_def)
  show ?thesis
    using q ty reflect_address_answer_txt_extra [OF q ty, of ex_env 0 ex_udp]
    by (simp add: ex_udp_def To4_def v4InV6Prefix_def dom_zone_def port)
qed

text \<open>
  Claim C2, as stated: for every query of type TXT the answer section is exactly the TXT
  record and the extra section exactly the address record. The extra section is not
  always the address record alone: a TXT query that carries a TSIG record, on a writer
  whose TSIG status is nil, gets a reply whose extra section is the address record
  followed by the TSIG record that \<open>SetTsig\<close> appends.
\<close>

theorem txt_query_extra_counterexample:
  "map_option Extra (reply (outcome (handleReflect ex_env 0 (ex_tcp None)
       (ex_query ''whoami.miek.nl.'' TypeTXT [ex_tsig])))) =
     Some [AAAA \<lparr>Name = ''whoami.miek.nl.'', Rrtype = TypeAAAA, Class = ClassINET, Ttl = 0,
                  Rdlength = 0\<rparr>
             [0x20, 0x01, 0x0d, 0xb8, 0, 0, 0, 0, 0, 0, 0, 0, 0, 0, 0, 1],
           TSIG \<lparr>Name = ''axfr.'', Rrtype = TypeTSIG, Class = ClassANY, Ttl = 0, Rdlength = 0\<rparr>
             HmacMD5 1383220800 300 2157] \<and>
   map_option Extra (reply (outcome (handleReflect ex_env 0 (ex_tcp None)
       (ex_query ''whoami.miek.nl.'' TypeTXT [ex_tsig])))) \<noteq>
     Some [AAAA \<lparr>Name = ''whoami.miek.nl.'', Rrtype = TypeAAAA, Class = ClassINET, Ttl = 0,
                  Rdlength = 0\<rparr>
             [0x20, 0x01, 0x0d, 0xb8, 0, 0, 0, 0, 0, 0, 0, 0, 0, 0, 0, 1]]"
  by (simp add: handleReflect_def send_def tsig_step_def SetTsig_def SetReply_def IsTsig_def
      remote_def self_rr_def txt_rr_def To4_def v4InV6Prefix_def ex_env_def ex_tcp_def ex_query_def ex_tsig_def
      new_Msg_def dom_zone_def dns_types Let_def)

text \<open>
  Claim C2, amended. Take a query of type TXT and a query of type A, AAAA or an
  unrecognised type on the same session. The reply to the TXT query has exactly the TXT
  record in its answer section, and that is the TXT record of the other reply's extra
  section; its extra section starts with the address record, which is the other reply's
  answer. The extra section is exactly the address record unless the request carries a
  TSIG record and the writer's TSIG status is nil; then exactly one more record follows
  it, the TSIG record of the reply.
\<close>

theorem txt_query_sections_swapped:
  assumes "Questions r = q # qs" and "Qtype q = TypeTXT"
    and "Questions r' = q' # qs'" and "Qtype q' \<notin> {TypeTXT, TypeAXFR, TypeIXFR}"
  shows "\<exists>m m' t a.
     reply (outcome (handleReflect env c w r)) = Some m \<and>
     reply (outcome (handleReflect env c' w r')) = Some m' \<and>
     is_TXT t \<and> is_address a \<and>
     Answer m' = [a] \<and> filter is_TXT (Extra m') = [t] \<and>
     Answer m = [t] \<and>
     Extra m =
       a # (if IsTsig r \<noteq> None \<and> TsigStatus w = None
            then [TSIG \<lparr>Name = Name (Header (last (Extra r))), Rrtype = TypeTSIG,
                         Class = ClassANY, Ttl = 0, Rdlength = 0\<rparr>
                    HmacMD5 (word_of_int (now env)) 300 (MsgId r)]
            else [])"
proof -
  let ?t = "txt_rr (fst (remote w))"
  let ?a = "self_rr (fst (snd (remote w))) (snd (snd (remote w)))"
  have ty: "Qtype q \<noteq> TypeAXFR" "Qtype q \<noteq> TypeIXFR"
    using assms(2) by (simp_all add: dns_types)
  from assms(4) have ty': "Qtype q' \<noteq> TypeTXT" "Qtype q' \<noteq> TypeAXFR" "Qtype q' \<noteq> TypeIXFR"
    by simp_all
  from handleReflect_reply [OF assms(1) ty, of env c w] assms(2)
  obtain m ts where m: "reply (outcome (handleReflect env c w r)) = Some m"
    and an: "Answer m = [?t]" and ex: "Extra m = [?a] @ ts"
    and ts: "ts = (case IsTsig r of
             None \<Rightarrow> []
           | Some t \<Rightarrow>
               (case TsigStatus w of
                  None \<Rightarrow> [TSIG \<lparr>Name = Name (Header t), Rrtype = TypeTSIG, Class = ClassANY,
                                  Ttl = 0, Rdlength = 0\<rparr>
                             HmacMD5 (word_of_int (now env)) 300 (MsgId r)]
                | Some e \<Rightarrow> []))"
    by auto
  from handleReflect_reply [OF assms(3) ty'(2) ty'(3), of env c' w] ty'(1)
  obtain m' ts' where m': "reply (outcome (handleReflect env c' w r')) = Some m'"
    and an': "Answer m' = [?a]" and ex': "Extra m' = [?t] @ ts'"
    and ts': "ts' = (case IsTsig r' of
             None \<Rightarrow> []
           | Some t \<Rightarrow>
               (case TsigStatus w of
                  None \<Rightarrow> [TSIG \<lparr>Name = Name (Header t), Rrtype = TypeTSIG, Class = ClassANY,
                                  Ttl = 0, Rdlength = 0\<rparr>
                             HmacMD5 (word_of_int (now env)) 300 (MsgId r')]
                | Some e \<Rightarrow> []))"
    by auto
  have k: "is_TXT ?t" "is_address ?a"
    using self_rr_kind txt_rr_kind by simp_all
  from ts' have "filter is_TXT ts' = []"
    by (simp split: option.splits)
  with ex' k have 1: "filter is_TXT (Extra m') = [?t]"
    by simp
  have 2: "Extra m =
       ?a # (if IsTsig r \<noteq> None \<and> TsigStatus w = None
            then [TSIG \<lparr>Name = Name (Header (last (Extra r))), Rrtype = TypeTSIG,
                         Class = ClassANY, Ttl = 0, Rdlength = 0\<rparr>
                    HmacMD5 (word_of_int (now env)) 300 (MsgId r)]
            else [])"
  proof (cases "IsTsig r")
    case None
    with ex ts show ?thesis
      by simp
  next
    case (Some t)
    then have "t = last (Extra r)"
      by (simp add: IsTsig_Some)
    with Some ex ts show ?thesis
      by (cases "TsigStatus w") simp_all
  qed
  from m m' k an' 1 an 2 show ?thesis
    by blast
qed

text \<open>
  An unsigned TXT query and the A query of the specification's example, from
  203.0.113.7, UDP port 40000: the two records change places.
\<close>

theorem txt_query_sections_swapped_witness:
  "Questions (ex_query ''whoami.miek.nl.'' TypeTXT []) =
     \<lparr>Qname = ''whoami.miek.nl.'', Qtype = TypeTXT, Qclass = ClassINET\<rparr> # [] \<and>
   Questions (ex_query ''whoami.miek.nl.'' TypeA []) =
     \<lparr>Qname = ''whoami.miek.nl.'', Qtype = TypeA, Qclass = ClassINET\<rparr> # [] \<and>
   TypeA \<notin> {TypeTXT, TypeAXFR, TypeIXFR} \<and>
   IsTsig (ex_query ''whoami.miek.nl.'' TypeTXT []) = None \<and>
   (\<exists>m m' t a.
     reply (outcome (handleReflect ex_env 0 ex_udp (ex_query ''whoami.miek.nl.'' TypeTXT []))) = Some m \<and>
     reply (outcome (handleReflect ex_env 1 ex_udp (ex_query ''whoami.miek.nl.'' TypeA []))) = Some m' \<and>
     is_TXT t \<and> is_address a \<and>
     Answer m' = [a] \<and> filter is_TXT (Extra m') = [t] \<and> Answer m = [t] \<and> Extra m = [a])"
proof -
  have q: "Questions (ex_query ''whoami.miek.nl.'' TypeTXT []) =
     \<lparr>Qname = ''whoami.miek.nl.'', Qtype = TypeTXT, Qclass = ClassINET\<rparr> # []"
    and q': "Questions (ex_query ''whoami.miek.nl.'' TypeA []) =
     \<lparr>Qname = ''whoami.miek.nl.'', Qtype = TypeA, Qclass = ClassINET\<rparr> # []"
    by (simp_all add: ex_query_def new_Msg_def)
  have ty: "Qtype \<lparr>Qname = ''whoami.miek.nl.'', Qtype = TypeTXT, Qclass = ClassINET\<rparr> = TypeTXT"
    by simp
  have ty': "Qtype \<lparr>Qname = ''whoami.miek.nl.'', Qtype = TypeA, Qclass = ClassINET\<rparr>
      \<notin> {TypeTXT, TypeAXFR, TypeIXFR}"
    by (simp add: dns_types)
  have un: "IsTsig (ex_query ''whoami.miek.nl.'' TypeTXT []) = None"
    by (simp add: IsTsig_def ex_query_def new_Msg_def)
  from txt_query_sections_swapped [OF q ty q' ty', of ex_env 0 ex_udp 1]
  have "\<exists>m m' t a.
     reply (outcome (handleReflect ex_env 0 ex_udp (ex_query ''whoami.miek.nl.'' TypeTXT []))) = Some m \<and>
     reply (outcome (handleReflect ex_env 1 ex_udp (ex_query ''whoami.miek.nl.'' TypeA []))) = Some m' \<and>
     is_TXT t \<and> is_address a \<and>
     Answer m' = [a] \<and> filter is_TXT (Extra m') = [t] \<and> Answer m = [t] \<and> Extra m = [a]"
    by (simp add: un)
  with q q' ty' un show ?thesis
    by simp
qed

subsection \<open>Truncation\<close>

text \<open>
  Claim C3, as stated: every reflection query whose name is the truncation-test name gets
  a reply with the TC bit of which half the bytes are sent. A query of type AXFR (or
  IXFR) for \<open>tc.miek.nl.\<close> leaves \<open>handleReflect\<close> in the transfer branch, before the
  test of the name: the envelope of four records is sent, no reply is truncated and
  no half buffer is written.
\<close>

theorem truncation_transfer_counterexample:
  "outcome (handleReflect ex_env 0 (ex_tcp None) (ex_query ''tc.miek.nl.'' TypeAXFR [])) =
     Transfer
       [soa,
        TXT \<lparr>Name = ''whoami.miek.nl.'', Rrtype = TypeTXT, Class = ClassINET, Ttl = 0,
             Rdlength = 0\<rparr> [''Port: 53211 (tcp)''],
        AAAA \<lparr>Name = ''whoami.miek.nl.'', Rrtype = TypeAAAA, Class = ClassINET, Ttl = 0,
              Rdlength = 0\<rparr> [0x20, 0x01, 0x0d, 0xb8, 0, 0, 0, 0, 0, 0, 0, 0, 0, 0, 0, 1],
        soa] \<and>
   reply (outcome (handleReflect ex_env 0 (ex_tcp None) (ex_query ''tc.miek.nl.'' TypeAXFR []))) = None"
proof -
  have port: "Itoa 53211 = ''53211''"
    by (simp add: Itoa_def digits.simps digit_char_def)
  show ?thesis
    by (simp add: handleReflect_def remote_def self_rr_def txt_rr_def To4_def v4InV6Prefix_def ex_env_def
        ex_tcp_def ex_query_def new_Msg_def dom_zone_def dns_types Let_def port)
qed

text \<open>
  Claim C3, amended. For every reflection query of a type other than AXFR and IXFR whose
  first question's name is exactly \<open>tc.miek.nl.\<close>, the handler sets the reply's TC bit,
  packs the reply and hands the first half of the buffer, \<open>length buf div 2\<close> bytes,
  to \<open>w.Write\<close>; that is its only send.
\<close>

theorem truncation_sends_half:
  assumes "Questions r = q # qs" and "Qname q = ''tc.miek.nl.''"
    and "Qtype q \<notin> {TypeAXFR, TypeIXFR}"
  shows "\<exists>m sent. outcome (handleReflect env c w r) = Write m sent \<and>
     Truncated m \<and>
     sent = take (length (Pack env m) div 2) (Pack env m) \<and>
     length sent = length (Pack env m) div 2"
proof -
  from assms(3) have ty: "Qtype q \<noteq> TypeAXFR" "Qtype q \<noteq> TypeIXFR"
    by simp_all
  from handleReflect_reply [OF assms(1) ty, of env c w] assms(2)
  obtain m where "Truncated m"
    and "outcome (handleReflect env c w r) =
      Write m (take (length (Pack env m) div 2) (Pack env m))"
    by auto
  then show ?thesis
    by simp
qed

text \<open>
  A query of type A for \<open>tc.miek.nl.\<close>: of the seven bytes of the packed reply the first
  three are written.
\<close>

theorem truncation_sends_half_witness:
  "Questions (ex_query ''tc.miek.nl.'' TypeA []) =
     \<lparr>Qname = ''tc.miek.nl.'', Qtype = TypeA, Qclass = ClassINET\<rparr> # [] \<and>
   TypeA \<notin> {TypeAXFR, TypeIXFR} \<and>
   (\<exists>m. outcome (handleReflect ex_env 0 ex_udp (ex_query ''tc.miek.nl.'' TypeA [])) =
          Write m [0x08, 0x6d, 0x86] \<and> Truncated m)"
proof -
  have q: "Questions (ex_query ''tc.miek.nl.'' TypeA []) =
     \<lparr>Qname = ''tc.miek.nl.'', Qtype = TypeA, Qclass = ClassINET\<rparr> # []"
    by (simp add: ex_query_def new_Msg_def)
  have n: "Qname \<lparr>Qname = ''tc.miek.nl.'', Qtype = TypeA, Qclass = ClassINET\<rparr> = ''tc.miek.nl.''"
    by simp
  have ty: "Qtype \<lparr>Qname = ''tc.miek.nl.'', Qtype = TypeA, Qclass = ClassINET\<rparr>
      \<notin> {TypeAXFR, TypeIXFR}"
    by (simp add: dns_types)
  show ?thesis
    using q ty truncation_sends_half [OF q n ty, of ex_env 0 ex_udp]
    by (auto simp: ex_env_def)
qed

subsection \<open>Zone transfer\<close>

text \<open>
  Claim C4, as stated: every AXFR or IXFR query over stream transport makes the
  zone-transfer path send the envelope. The handler first calls \<open>tr.Out\<close> and returns
  at once when that reports an error (lines 191--194): then no envelope is sent, and no
  reply either.
\<close>

theorem transfer_aborted_counterexample:
  "Out_err ex_env_no_transfer = Some ''dns: bad xfr'' \<and>
   outcome (handleReflect ex_env_no_transfer 0 (ex_tcp None)
      (ex_query ''whoami.miek.nl.'' TypeAXFR [])) = Aborted \<and>
   reply (outcome (handleReflect ex_env_no_transfer 0 (ex_tcp None)
      (ex_query ''whoami.miek.nl.'' TypeAXFR []))) = None"
  by (simp add: handleReflect_def ex_env_no_transfer_def ex_env_def ex_query_def new_Msg_def
      dns_types Let_def split: prod.splits)

text \<open>
  Claim C4, amended. For every query of type AXFR or IXFR on a stream session, when
  \<open>tr.Out\<close> reports no error the handler sends one envelope with four records in this
  order: the SOA record of \<open>whoami.miek.nl.\<close> (TTL 0, class INET, name server
  \<open>linode.atoom.net.\<close>, mailbox \<open>miek.miek.nl.\<close>, serial 2009032802, refresh 21600, retry
  7200, expire 604800, minimum TTL 3600), the TXT record with the port text, the address
  record, and the same SOA record again; when \<open>tr.Out\<close> reports an error it sends
  nothing. In both cases it returns without a reply of its own (neither \<open>WriteMsg\<close> nor
  \<open>Write\<close>).
\<close>

theorem transfer_envelope:
  assumes "Questions r = q # qs" and "Qtype q \<in> {TypeAXFR, TypeIXFR}"
    and "RemoteAddr w = TCPAddr ip port"
  shows "outcome (handleReflect env c w r) =
     (if Out_err env = None
      then Transfer
        [SOA \<lparr>Name = ''whoami.miek.nl.'', Rrtype = TypeSOA, Class = ClassINET, Ttl = 0,
               Rdlength = 0\<rparr>
           ''linode.atoom.net.'' ''miek.miek.nl.'' 2009032802 21600 7200 604800 3600,
         TXT \<lparr>Name = dom_zone, Rrtype = TypeTXT, Class = ClassINET, Ttl = 0, Rdlength = 0\<rparr>
           [''Port: '' @ Itoa port @ '' (tcp)''],
         (case To4 ip of
            Some ip4 \<Rightarrow>
              A \<lparr>Name = dom_zone, Rrtype = TypeA, Class = ClassINET, Ttl = 0, Rdlength = 0\<rparr> ip4
          | None \<Rightarrow>
              AAAA \<lparr>Name = dom_zone, Rrtype = TypeAAAA, Class = ClassINET, Ttl = 0, Rdlength = 0\<rparr> ip),
         SOA \<lparr>Name = ''whoami.miek.nl.'', Rrtype = TypeSOA, Class = ClassINET, Ttl = 0,
               Rdlength = 0\<rparr>
           ''linode.atoom.net.'' ''miek.miek.nl.'' 2009032802 21600 7200 604800 3600]
      else Aborted) \<and>
     reply (outcome (handleReflect env c w r)) = None"
proof -
  from assms(2) have ty: "Qtype q \<noteq> TypeTXT" "Qtype q \<noteq> TypeA" "Qtype q \<noteq> TypeAAAA"
    by (auto simp: dns_types)
  from assms(2) have x: "Qtype q = TypeAXFR \<or> Qtype q = TypeIXFR"
    by simp
  have rm: "remote w = (''Port: '' @ Itoa port @ '' (tcp)'', ip, To4 ip \<noteq> None)"
    using assms(3) by (simp add: remote_eq)
  have oc: "outcome (handleReflect env c w r) =
      (case Out_err env of
         None \<Rightarrow> Transfer [soa, txt_rr (''Port: '' @ Itoa port @ '' (tcp)''),
                    self_rr ip (To4 ip \<noteq> None), soa]
       | Some e \<Rightarrow> Aborted)"
    using assms(1) ty x by (simp add: handleReflect_def rm Let_def split: option.splits)
  then show ?thesis
    by (simp add: soa_def txt_rr_def self_rr_def split: option.splits)
qed

text \<open>
  An AXFR query from the IPv6 client on TCP port 53211, with a transfer that starts.
\<close>

theorem transfer_envelope_witness:
  "Questions (ex_query ''whoami.miek.nl.'' TypeAXFR []) =
     \<lparr>Qname = ''whoami.miek.nl.'', Qtype = TypeAXFR, Qclass = ClassINET\<rparr> # [] \<and>
   TypeAXFR \<in> {TypeAXFR, TypeIXFR} \<and>
   RemoteAddr (ex_tcp None) =
     TCPAddr [0x20, 0x01, 0x0d, 0xb8, 0, 0, 0, 0, 0, 0, 0, 0, 0, 0, 0, 1] 53211 \<and>
   Out_err ex_env = None \<and>
   outcome (handleReflect ex_env 0 (ex_tcp None) (ex_query ''whoami.miek.nl.'' TypeAXFR [])) =
     Transfer
       [SOA \<lparr>Name = ''whoami.miek.nl.'', Rrtype = TypeSOA, Class = ClassINET, Ttl = 0,
              Rdlength = 0\<rparr>
          ''linode.atoom.net.'' ''miek.miek.nl.'' 2009032802 21600 7200 604800 3600,
        TXT \<lparr>Name = ''whoami.miek.nl.'', Rrtype = TypeTXT, Class = ClassINET, Ttl = 0,
             Rdlength = 0\<rparr> [''Port: 53211 (tcp)''],
        AAAA \<lparr>Name = ''whoami.miek.nl.'', Rrtype = TypeAAAA, Class = ClassINET, Ttl = 0,
              Rdlength = 0\<rparr> [0x20, 0x01, 0x0d, 0xb8, 0, 0, 0, 0, 0, 0, 0, 0, 0, 0, 0, 1],
        SOA \<lparr>Name = ''whoami.miek.nl.'', Rrtype = TypeSOA, Class = ClassINET, Ttl = 0,
              Rdlength = 0\<rparr>
          ''linode.atoom.net.'' ''miek.miek.nl.'' 2009032802 21600 7200 604800 3600] \<and>
   reply (outcome (handleReflect ex_env 0 (ex_tcp None)
      (ex_query ''whoami.miek.nl.'' TypeAXFR []))) = None"
proof -
  have q: "Questions (ex_query ''whoami.miek.nl.'' TypeAXFR []) =
     \<lparr>Qname = ''whoami.miek.nl.'', Qtype = TypeAXFR, Qclass = ClassINET\<rparr> # []"
    by (simp add: ex_query_def new_Msg_def)
  have ty: "Qtype \<lparr>Qname = ''whoami.miek.nl.'', Qtype = TypeAXFR, Qclass = ClassINET\<rparr>
      \<in> {TypeAXFR, TypeIXFR}"
    by simp
  have ra: "RemoteAddr (ex_tcp None) =
     TCPAddr [0x20, 0x01, 0x0d, 0xb8, 0, 0, 0, 0, 0, 0, 0, 0, 0, 0, 0, 1] 53211"
    by (simp add: ex_tcp_def)
  have oe: "Out_err ex_env = None"
    by (simp add: ex_env_def)
  have port: "Itoa 53211 = ''53211''"
    by (simp add: Itoa_def digits.simps digit_char_def)
  show ?thesis
    using q ra oe transfer_envelope [OF q ty ra, of ex_env 0]
    by (simp add: To4_def v4InV6Prefix_def dom_zone_def port)
qed

text \<open>
  Claim C7, as stated: an AXFR or IXFR query over datagram transport never enters the
  zone-transfer path. \<open>handleReflect\<close> chooses the branch by the query type alone: the
  AXFR query of a UDP client is answered with the envelope like any other.
\<close>

theorem transfer_over_udp_counterexample:
  "is_UDPAddr (RemoteAddr ex_udp) \<and>
   outcome (handleReflect ex_env 0 ex_udp (ex_query ''whoami.miek.nl.'' TypeAXFR [])) =
     Transfer
       [soa,
        TXT \<lparr>Name = ''whoami.miek.nl.'', Rrtype = TypeTXT, Class = ClassINET, Ttl = 0,
             Rdlength = 0\<rparr> [''Port: 40000 (udp)''],
        A \<lparr>Name = ''whoami.miek.nl.'', Rrtype = TypeA, Class = ClassINET, Ttl = 0,
           Rdlength = 0\<rparr> [203, 0, 113, 7],
        soa]"
proof -
  have port: "Itoa 40000 = ''40000''"
    by (simp add: Itoa_def digits.simps digit_char_def)
  show ?thesis
    by (simp add: handleReflect_def remote_def self_rr_def txt_rr_def To4_def v4InV6Prefix_def ex_env_def
        ex_udp_def ex_query_def new_Msg_def dom_zone_def dns_types Let_def port)
qed

text \<open>
  Claim C7, amended. The zone-transfer path is entered exactly when the first question's
  type is AXFR or IXFR, on a datagram session as on a stream session: the handler does
  not look at the transport when it chooses the path.
\<close>

theorem transfer_path_by_type:
  assumes "Questions r = q # qs"
  shows "in_transfer (outcome (handleReflect env c w r)) = (Qtype q \<in> {TypeAXFR, TypeIXFR})"
proof (cases "Qtype q \<in> {TypeAXFR, TypeIXFR}")
  case True
  then have "Qtype q \<noteq> TypeTXT" "Qtype q \<noteq> TypeA" "Qtype q \<noteq> TypeAAAA"
    by (auto simp: dns_types)
  with True assms show ?thesis
    by (auto simp: handleReflect_def Let_def split: prod.splits option.splits)
next
  case False
  then have ty: "Qtype q \<noteq> TypeAXFR" "Qtype q \<noteq> TypeIXFR"
    by simp_all
  from handleReflect_reply [OF assms ty, of env c w]
  obtain m where "reply (outcome (handleReflect env c w r)) = Some m"
    by auto
  then have "\<not> in_transfer (outcome (handleReflect env c w r))"
    by (cases "outcome (handleReflect env c w r)") simp_all
  with False show ?thesis
    by simp
qed

theorem transfer_path_by_type_witness:
  "Questions (ex_query ''whoami.miek.nl.'' TypeIXFR []) =
     \<lparr>Qname = ''whoami.miek.nl.'', Qtype = TypeIXFR, Qclass = ClassINET\<rparr> # [] \<and>
   in_transfer (outcome (handleReflect ex_env 0 ex_udp (ex_query ''whoami.miek.nl.'' TypeIXFR []))) \<and>
   \<not> in_transfer (outcome (handleReflect ex_env 0 ex_udp (ex_query ''whoami.miek.nl.'' TypeA [])))"
proof -
  have q: "Questions (ex_query ''whoami.miek.nl.'' TypeIXFR []) =
     \<lparr>Qname = ''whoami.miek.nl.'', Qtype = TypeIXFR, Qclass = ClassINET\<rparr> # []"
    and q': "Questions (ex_query ''whoami.miek.nl.'' TypeA []) =
     \<lparr>Qname = ''whoami.miek.nl.'', Qtype = TypeA, Qclass = ClassINET\<rparr> # []"
    by (simp_all add: ex_query_def new_Msg_def)
  show ?thesis
    using q transfer_path_by_type [OF q, of ex_env 0 ex_udp]
      transfer_path_by_type [OF q', of ex_env 0 ex_udp]
    by (simp add: dns_types)
qed

subsection \<open>TSIG\<close>

text \<open>
  Claim C5, as stated: whenever a TSIG key is configured, or inbound verification
  succeeds, the reply is signed. The handler never reads the server's key table: on a
  server started with a key, the reply to a request without a TSIG record has no TSIG
  record.
\<close>

theorem key_configured_unsigned_counterexample:
  "TsigSecret (server (ex_tcp None)) = Some [(''axfr.'', ''c2VjcmV0'')] \<and>
   map_option Extra (reply (outcome (handleReflect ex_env 0 (ex_tcp None)
       (ex_query ''whoami.miek.nl.'' TypeA [])))) =
     Some [TXT \<lparr>Name = ''whoami.miek.nl.'', Rrtype = TypeTXT, Class = ClassINET, Ttl = 0,
                 Rdlength = 0\<rparr> [''Port: 53211 (tcp)'']] \<and>
   map_option IsTsig (reply (outcome (handleReflect ex_env 0 (ex_tcp None)
       (ex_query ''whoami.miek.nl.'' TypeA [])))) = Some None"
proof -
  have port: "Itoa 53211 = ''53211''"
    by (simp add: Itoa_def digits.simps digit_char_def)
  show ?thesis
    by (simp add: handleReflect_def send_def tsig_step_def SetReply_def IsTsig_def
        remote_def self_rr_def txt_rr_def To4_def v4InV6Prefix_def ex_env_def ex_tcp_def ex_query_def
        new_Msg_def dom_zone_def dns_types serve_def Let_def port)
qed

text \<open>
  Claim C5, amended. The reply to a query of a type other than AXFR and IXFR gets a TSIG
  record exactly when the request carries a TSIG record and the writer's TSIG status
  is nil, whether or not the server has a key. That record is the last of the extra
  section; it names the key of the request's TSIG record and has the fixed algorithm
  HMAC-MD5, a fudge of 300 seconds and the current time as its signing time.
\<close>

theorem reply_tsig_follows_request:
  assumes "Questions r = q # qs" and "Qtype q \<notin> {TypeAXFR, TypeIXFR}"
  shows "\<exists>m. reply (outcome (handleReflect env c w r)) = Some m \<and>
     IsTsig m =
       (if IsTsig r \<noteq> None \<and> TsigStatus w = None
        then Some (TSIG \<lparr>Name = Name (Header (last (Extra r))), Rrtype = TypeTSIG,
                          Class = ClassANY, Ttl = 0, Rdlength = 0\<rparr>
                     HmacMD5 (word_of_int (now env)) 300 (MsgId r))
        else None)"
proof -
  from assms(2) have ty: "Qtype q \<noteq> TypeAXFR" "Qtype q \<noteq> TypeIXFR"
    by simp_all
  from handleReflect_reply [OF assms(1) ty, of env c w]
  obtain m ts where m: "reply (outcome (handleReflect env c w r)) = Some m"
    and ex: "Extra m = (if Qtype q = TypeTXT
                then [self_rr (fst (snd (remote w))) (snd (snd (remote w)))]
                else [txt_rr (fst (remote w))]) @ ts"
    and ts: "ts = (case IsTsig r of
             None \<Rightarrow> []
           | Some t \<Rightarrow>
               (case TsigStatus w of
                  None \<Rightarrow> [TSIG \<lparr>Name = Name (Header t), Rrtype = TypeTSIG, Class = ClassANY,
                                  Ttl = 0, Rdlength = 0\<rparr>
                             HmacMD5 (word_of_int (now env)) 300 (MsgId r)]
                | Some e \<Rightarrow> []))"
    by auto
  have "IsTsig m =
       (if IsTsig r \<noteq> None \<and> TsigStatus w = None
        then Some (TSIG \<lparr>Name = Name (Header (last (Extra r))), Rrtype = TypeTSIG,
                          Class = ClassANY, Ttl = 0, Rdlength = 0\<rparr>
                     HmacMD5 (word_of_int (now env)) 300 (MsgId r))
        else None)"
  proof (cases "IsTsig r")
    case None
    with ex ts show ?thesis
      by (simp add: IsTsig_def [of m] self_rr_def txt_rr_def)
  next
    case (Some t)
    then have t: "t = last (Extra r)"
      by (simp add: IsTsig_Some)
    from Some ex ts t show ?thesis
      by (cases "TsigStatus w") (simp_all add: IsTsig_def [of m] self_rr_def txt_rr_def)
  qed
  with m show ?thesis
    by blast
qed

text \<open>
  A signed request on a writer that reports no TSIG error: the reply's TSIG record names
  the key \<open>axfr.\<close> and carries the clock's time.
\<close>

theorem reply_tsig_follows_request_witness:
  "Questions (ex_query ''whoami.miek.nl.'' TypeA [ex_tsig]) =
     \<lparr>Qname = ''whoami.miek.nl.'', Qtype = TypeA, Qclass = ClassINET\<rparr> # [] \<and>
   TypeA \<notin> {TypeAXFR, TypeIXFR} \<and>
   IsTsig (ex_query ''whoami.miek.nl.'' TypeA [ex_tsig]) \<noteq> None \<and>
   TsigStatus (ex_tcp None) = None \<and>
   (\<exists>m. reply (outcome (handleReflect ex_env 0 (ex_tcp None)
            (ex_query ''whoami.miek.nl.'' TypeA [ex_tsig]))) = Some m \<and>
      IsTsig m =
        Some (TSIG \<lparr>Name = ''axfr.'', Rrtype = TypeTSIG, Class = ClassANY, Ttl = 0,
                    Rdlength = 0\<rparr> HmacMD5 1383220800 300 2157))"
proof -
  have q: "Questions (ex_query ''whoami.miek.nl.'' TypeA [ex_tsig]) =
     \<lparr>Qname = ''whoami.miek.nl.'', Qtype = TypeA, Qclass = ClassINET\<rparr> # []"
    by (simp add: ex_query_def new_Msg_def)
  have ty: "Qtype \<lparr>Qname = ''whoami.miek.nl.'', Qtype = TypeA, Qclass = ClassINET\<rparr>
      \<notin> {TypeAXFR, TypeIXFR}"
    by (simp add: dns_types)
  have sg: "IsTsig (ex_query ''whoami.miek.nl.'' TypeA [ex_tsig]) \<noteq> None"
    by (simp add: IsTsig_def ex_query_def ex_tsig_def new_Msg_def)
  have st: "TsigStatus (ex_tcp None) = None"
    by (simp add: ex_tcp_def)
  have sel: "Name (Header (last (Extra (ex_query ''whoami.miek.nl.'' TypeA [ex_tsig])))) = ''axfr.''"
    "MsgId (ex_query ''whoami.miek.nl.'' TypeA [ex_tsig]) = 2157" "now ex_env = 1383220800"
    by (simp_all add: ex_query_def ex_tsig_def ex_env_def new_Msg_def)
  show ?thesis
    using q ty sg st reply_tsig_follows_request [OF q ty, of ex_env 0 "ex_tcp None"]
    by (simp add: sel)
qed

text \<open>
  Claim C8, as stated: for every inbound message with a TSIG record whose verification
  fails, the failure is logged and the reply is still sent. An AXFR (or IXFR) query
  leaves the handler in the transfer branch, before the TSIG status is looked at:
  with a failed verification nothing is printed.
\<close>

theorem tsig_failure_transfer_counterexample:
  "IsTsig (ex_query ''whoami.miek.nl.'' TypeAXFR [ex_tsig]) = Some ex_tsig \<and>
   TsigStatus (ex_tcp (Some ''dns: bad signature'')) = Some ''dns: bad signature'' \<and>
   printed (handleReflect ex_env 0 (ex_tcp (Some ''dns: bad signature''))
      (ex_query ''whoami.miek.nl.'' TypeAXFR [ex_tsig])) = [] \<and>
   in_transfer (outcome (handleReflect ex_env 0 (ex_tcp (Some ''dns: bad signature''))
      (ex_query ''whoami.miek.nl.'' TypeAXFR [ex_tsig])))"
  by (simp add: handleReflect_def IsTsig_def go_rem_def ex_env_def ex_tcp_def ex_query_def
      ex_tsig_def new_Msg_def dns_types Let_def split: prod.splits)

text \<open>
  Claim C8, amended. For every query of a type other than AXFR and IXFR that carries a
  TSIG record, on a writer that reports a TSIG error, the handler prints the status on
  standard error and still sends its reply; the reply has no TSIG record and is the
  reply that the same request without its extra section gets.
\<close>

theorem tsig_failure_logged_reply_sent:
  assumes "Questions r = q # qs" and "Qtype q \<notin> {TypeAXFR, TypeIXFR}"
    and "IsTsig r = Some t" and "TsigStatus w = Some e"
  shows "Stderr (''Status '' @ e @ [CHR 0x0A]) \<in> set (printed (handleReflect env c w r)) \<and>
     (\<exists>m. reply (outcome (handleReflect env c w r)) = Some m \<and>
        IsTsig m = None \<and>
        Answer m = (if Qtype q = TypeTXT then [txt_rr (fst (remote w))]
                    else [self_rr (fst (snd (remote w))) (snd (snd (remote w)))]) \<and>
        Extra m = (if Qtype q = TypeTXT then [self_rr (fst (snd (remote w))) (snd (snd (remote w)))]
                   else [txt_rr (fst (remote w))])) \<and>
     outcome (handleReflect env c w r) = outcome (handleReflect env c w (r\<lparr>Extra := []\<rparr>))"
proof -
  from assms(2) have ty: "Qtype q \<noteq> TypeAXFR" "Qtype q \<noteq> TypeIXFR"
    by simp_all
  have q': "Questions (r\<lparr>Extra := []\<rparr>) = q # qs"
    using assms(1) by simp
  have un: "IsTsig (r\<lparr>Extra := []\<rparr>) = None"
    by (simp add: IsTsig_def)
  have st: "snd (tsig_step env w r m0) = [Stderr (''Status '' @ e @ [CHR 0x0A])]" for m0
    using assms(3,4) by (simp add: tsig_step_def)
  have 1: "Stderr (''Status '' @ e @ [CHR 0x0A]) \<in> set (printed (handleReflect env c w r))"
    using send_printed [of env w r] st
    by (fastforce simp: handleReflect_printed [OF assms(1) ty])
  from handleReflect_reply [OF assms(1) ty, of env c w] assms(3,4)
  obtain m where m: "reply (outcome (handleReflect env c w r)) = Some m"
    and an: "Answer m = (if Qtype q = TypeTXT then [txt_rr (fst (remote w))]
                    else [self_rr (fst (snd (remote w))) (snd (snd (remote w)))])"
    and ex: "Extra m = (if Qtype q = TypeTXT then [self_rr (fst (snd (remote w))) (snd (snd (remote w)))]
                   else [txt_rr (fst (remote w))])"
    by auto
  from ex have 2: "IsTsig m = None"
    by (simp add: IsTsig_def self_rr_def txt_rr_def)
  have "fst (tsig_step env w r m0) = m0" "fst (tsig_step env w (r\<lparr>Extra := []\<rparr>) m0) = m0" for m0
    using assms(4) un by (simp_all add: tsig_step_unsigned)
  then have 3: "outcome (handleReflect env c w r) = outcome (handleReflect env c w (r\<lparr>Extra := []\<rparr>))"
    using assms(1)
    by (simp add: handleReflect_outcome [OF assms(1) ty] handleReflect_outcome [OF q' ty]
        send_outcome SetReply_def Let_def)
  from 1 2 3 m an ex show ?thesis
    by blast
qed

text \<open>
  A signed query of type A on a writer that reports \<open>dns: bad signature\<close>: the status
  line is the one line printed, and the reply is the unsigned one.
\<close>

theorem tsig_failure_logged_reply_sent_witness:
  "Questions (ex_query ''whoami.miek.nl.'' TypeA [ex_tsig]) =
     \<lparr>Qname = ''whoami.miek.nl.'', Qtype = TypeA, Qclass = ClassINET\<rparr> # [] \<and>
   TypeA \<notin> {TypeAXFR, TypeIXFR} \<and>
   IsTsig (ex_query ''whoami.miek.nl.'' TypeA [ex_tsig]) = Some ex_tsig \<and>
   TsigStatus (ex_tcp (Some ''dns: bad signature'')) = Some ''dns: bad signature'' \<and>
   Stderr (''Status dns: bad signature'' @ [CHR 0x0A])
     \<in> set (printed (handleReflect ex_env 0 (ex_tcp (Some ''dns: bad signature''))
           (ex_query ''whoami.miek.nl.'' TypeA [ex_tsig]))) \<and>
   outcome (handleReflect ex_env 0 (ex_tcp (Some ''dns: bad signature''))
       (ex_query ''whoami.miek.nl.'' TypeA [ex_tsig])) =
     outcome (handleReflect ex_env 0 (ex_tcp (Some ''dns: bad signature''))
       ((ex_query ''whoami.miek.nl.'' TypeA [ex_tsig])\<lparr>Extra := []\<rparr>))"
proof -
  have q: "Questions (ex_query ''whoami.miek.nl.'' TypeA [ex_tsig]) =
     \<lparr>Qname = ''whoami.miek.nl.'', Qtype = TypeA, Qclass = ClassINET\<rparr> # []"
    by (simp add: ex_query_def new_Msg_def)
  have ty: "Qtype \<lparr>Qname = ''whoami.miek.nl.'', Qtype = TypeA, Qclass = ClassINET\<rparr>
      \<notin> {TypeAXFR, TypeIXFR}"
    by (simp add: dns_types)
  have sg: "IsTsig (ex_query ''whoami.miek.nl.'' TypeA [ex_tsig]) = Some ex_tsig"
    by (simp add: IsTsig_def ex_query_def ex_tsig_def new_Msg_def)
  have st: "TsigStatus (ex_tcp (Some ''dns: bad signature'')) = Some ''dns: bad signature''"
    by (simp add: ex_tcp_def)
  show ?thesis
    using q ty sg st tsig_failure_logged_reply_sent [OF q ty sg st, of ex_env 0]
    by simp
qed

subsection \<open>The record-store handler\<close>

text \<open>
  A hit: the stored record comes back with its TTL and its four address bytes.
\<close>

lemma handleSqlite_hit:
  "map_option Answer (reply (handleSqlite ex_store ex_udp (ex_query ''www.baz.miek.nl.'' TypeA []))) =
     Some [A \<lparr>Name = ''www.baz.miek.nl.'', Rrtype = TypeA, Class = ClassINET, Ttl = 3600,
              Rdlength = 0\<rparr> [192, 0, 2, 10]]"
  by (simp add: handleSqlite_def lookUpNameInDb_def octets_of_def Atoi_def decimal_def
      digit_val_def is_digit_def To4_def v4InV6Prefix_def IPv4_def SetReply_def ex_store_def ex_query_def
      new_Msg_def dns_types Let_def)

text \<open>
  A lookup that matches no row returns the zero values and no error.
\<close>

lemma lookUpNameInDb_miss:
  "filter (\<lambda>row. r_name row = name \<and> r_type row = rrtype) rows = [] \<Longrightarrow>
   lookUpNameInDb (Table rows) name rrtype = Returns (0, [], None)"
  by (simp add: lookUpNameInDb_def)

text \<open>
  Claim C6, as stated: on a lookup miss the handler answers with an empty ANY record of a
  fixed short TTL. The store is only consulted for queries of type A, and a miss there
  is not told apart from a hit: the query for a name that the store does not have is
  answered with an A record of TTL 0 and address 0.0.0.0.
\<close>

theorem lookup_miss_counterexample:
  "lookUpNameInDb ex_store ''nosuch.baz.miek.nl.'' ''A'' = Returns (0, [], None) \<and>
   map_option Answer (reply (handleSqlite ex_store ex_udp
       (ex_query ''nosuch.baz.miek.nl.'' TypeA []))) =
     Some [A \<lparr>Name = ''nosuch.baz.miek.nl.'', Rrtype = TypeA, Class = ClassINET, Ttl = 0,
              Rdlength = 0\<rparr> [0, 0, 0, 0]]"
  by (simp add: handleSqlite_def lookUpNameInDb_def octets_of_def Atoi_def To4_def v4InV6Prefix_def IPv4_def
      v4InV6Prefix_def SetReply_def ex_store_def ex_query_def new_Msg_def dns_types Let_def)

text \<open>
  Claim C6, amended. A query of any type other than A is answered, without a lookup and
  whatever the state of the store, with one empty ANY record of TTL 60. A query of type
  A whose lookup matches no row is answered with one A record of TTL 0 and address
  0.0.0.0; the handler does not turn the miss into an error and does send a reply.
\<close>

theorem sqlite_miss_and_other_types:
  assumes "Questions r = q # qs"
    and "Qtype q = TypeA \<longrightarrow>
      (\<exists>rows. db = Table rows \<and>
         filter (\<lambda>row. r_name row = Qname q \<and> r_type row = ''A'') rows = [])"
  shows "handleSqlite db w r =
     WriteMsg ((SetReply new_Msg r)
       \<lparr>Answer :=
          [if Qtype q = TypeA
           then A \<lparr>Name = Qname q, Rrtype = TypeA, Class = ClassINET, Ttl = 0, Rdlength = 0\<rparr>
                  [0, 0, 0, 0]
           else ANY \<lparr>Name = Qname q, Rrtype = TypeANY, Class = ClassINET, Ttl = 60,
                     Rdlength = 0\<rparr>]\<rparr>)"
proof (cases "Qtype q = TypeA")
  case True
  with assms(2) obtain rows where db: "db = Table rows"
    and no: "filter (\<lambda>row. r_name row = Qname q \<and> r_type row = ''A'') rows = []"
    by blast
  have oct: "octets_of [] = Some [0, 0, 0, 0]"
    by (simp add: octets_of_def Atoi_def)
  have ip: "slice_of (To4 (IPv4 0 0 0 0)) = [0, 0, 0, 0]"
    by (simp add: To4_def v4InV6Prefix_def IPv4_def)
  from True assms(1) db show ?thesis
    by (simp add: handleSqlite_def lookUpNameInDb_miss [OF no] oct ip SetReply_def new_Msg_def)
next
  case False
  with assms(1) show ?thesis
    by (simp add: handleSqlite_def SetReply_def new_Msg_def)
qed

text \<open>
  A miss on the example store, and a TXT query while the store cannot be opened.
\<close>

theorem sqlite_miss_and_other_types_witness:
  "Questions (ex_query ''nosuch.baz.miek.nl.'' TypeA []) =
     \<lparr>Qname = ''nosuch.baz.miek.nl.'', Qtype = TypeA, Qclass = ClassINET\<rparr> # [] \<and>
   (\<exists>rows. ex_store = Table rows \<and>
      filter (\<lambda>row. r_name row = ''nosuch.baz.miek.nl.'' \<and> r_type row = ''A'') rows = []) \<and>
   map_option Answer (reply (handleSqlite ex_store ex_udp
       (ex_query ''nosuch.baz.miek.nl.'' TypeA []))) =
     Some [A \<lparr>Name = ''nosuch.baz.miek.nl.'', Rrtype = TypeA, Class = ClassINET, Ttl = 0,
              Rdlength = 0\<rparr> [0, 0, 0, 0]] \<and>
   map_option Answer (reply (handleSqlite (SetupFails ''unable to open database file'') ex_udp
       (ex_query ''www.baz.miek.nl.'' TypeTXT []))) =
     Some [ANY \<lparr>Name = ''www.baz.miek.nl.'', Rrtype = TypeANY, Class = ClassINET, Ttl = 60,
                Rdlength = 0\<rparr>]"
proof -
  have q: "Questions (ex_query ''nosuch.baz.miek.nl.'' TypeA []) =
     \<lparr>Qname = ''nosuch.baz.miek.nl.'', Qtype = TypeA, Qclass = ClassINET\<rparr> # []"
    and q': "Questions (ex_query ''www.baz.miek.nl.'' TypeTXT []) =
     \<lparr>Qname = ''www.baz.miek.nl.'', Qtype = TypeTXT, Qclass = ClassINET\<rparr> # []"
    by (simp_all add: ex_query_def new_Msg_def)
  have miss: "\<exists>rows. ex_store = Table rows \<and>
      filter (\<lambda>row. r_name row = ''nosuch.baz.miek.nl.'' \<and> r_type row = ''A'') rows = []"
    by (simp add: ex_store_def)
  then have h: "Qtype \<lparr>Qname = ''nosuch.baz.miek.nl.'', Qtype = TypeA, Qclass = ClassINET\<rparr> = TypeA \<longrightarrow>
      (\<exists>rows. ex_store = Table rows \<and>
         filter (\<lambda>row. r_name row =
             Qname \<lparr>Qname = ''nosuch.baz.miek.nl.'', Qtype = TypeA, Qclass = ClassINET\<rparr> \<and>
           r_type row = ''A'') rows = [])"
    by simp
  have h': "Qtype \<lparr>Qname = ''www.baz.miek.nl.'', Qtype = TypeTXT, Qclass = ClassINET\<rparr> = TypeA \<longrightarrow>
      (\<exists>rows. SetupFails ''unable to open database file'' = Table rows \<and>
         filter (\<lambda>row. r_name row =
             Qname \<lparr>Qname = ''www.baz.miek.nl.'', Qtype = TypeTXT, Qclass = ClassINET\<rparr> \<and>
           r_type row = ''A'') rows = [])"
    by (simp add: dns_types)
  show ?thesis
    using q miss sqlite_miss_and_other_types [OF q h, of ex_udp]
      sqlite_miss_and_other_types [OF q' h', of ex_udp]
    by (simp add: dns_types)
qed

subsection \<open>The reflection counter\<close>


lemma progress_line:
  "\<exists>rest. printed (handleReflect env c w r) =
     (if go_rem (sint (c + 1)) 1000 = 0
      then [Stdout (''Served '' @ Itoa (sint (c + 1)) @ '' reflections'' @ [CHR 0x0A])]
      else []) @ rest"
  by (simp add: handleReflect_def Let_def split: prod.splits list.splits option.splits)

lemma progress_line_example:
  "printed (handleReflect ex_env 999 ex_udp (ex_query ''whoami.miek.nl.'' TypeA [])) =
     [Stdout (''Served 1000 reflections'' @ [CHR 0x0A])]"
proof -
  have n: "Itoa 1000 = ''1000''"
    by (simp add: Itoa_def digits.simps digit_char_def)
  show ?thesis
    by (simp add: handleReflect_def send_def tsig_step_def IsTsig_def SetReply_def go_rem_def
        ex_env_def ex_query_def new_Msg_def dns_types Let_def n split: prod.splits)
qed






subsection \<open>The question section\<close>

text \<open>
  Claim C10. Both handlers index the first question without a check
  (\<open>r.Question[0]\<close>, \<open>q[0]\<close>): on a request whose question section is empty each of them
  panics and sends no reply. The reply-shape theorems of this theory all assume a
  request with a first question.
\<close>

theorem empty_question_panics:
  assumes "Questions r = []"
  shows "outcome (handleReflect env c w r) = Panic \<and>
         reply (outcome (handleReflect env c w r)) = None \<and>
         handleSqlite db w r = Panic"
  using assms
  by (simp add: handleReflect_def handleSqlite_def Let_def split: prod.splits)

theorem empty_question_panics_witness:
  "Questions new_Msg = [] \<and>
   outcome (handleReflect ex_env 0 ex_udp new_Msg) = Panic \<and>
   reply (outcome (handleReflect ex_env 0 ex_udp new_Msg)) = None \<and>
   handleSqlite (Table []) ex_udp new_Msg = Panic"
proof -
  have e: "Questions new_Msg = []"
    by (simp add: new_Msg_def)
  show ?thesis
    using e empty_question_panics [OF e, of ex_env 0 ex_udp "Table []"]
    by simp
qed

end
